theory Spec2Isabelle
  imports Main
begin

text \<open>
  EnvTypesWebpack: the generator of \<open>src/EnvTypesGenerator.ts\<close>, which turns the text of
  an env file into a TypeScript declaration file, and the two hooks of the webpack plugin
  that run it. The definitions follow the source method by method; the theorems after
  them settle what the specification says about the parser, the rendering, the
  generation run and the plugin.
\<close>

section \<open>Strings\<close>

text \<open>
  A JavaScript string is modelled as a \<^typ>\<open>string\<close>: the UTF-8 bytes of the text. Every
  marker the generator looks for (the line feed, \<open>#\<close>, \<open>=\<close>, the prefix \<open>export \<close>) is
  ASCII, so splitting, searching and slicing act on the bytes as they act on the
  code units. White space is the ASCII part of what \<open>String.prototype.trim\<close> and the
  regular expression class \<open>\s\<close> remove: tab, line feed, vertical tab, form feed,
  carriage return and space.
\<close>

abbreviation LF :: char where
  "LF \<equiv> CHR 0x0A"

definition isWhiteSpace :: "char \<Rightarrow> bool" where
  "isWhiteSpace c =
     (c = CHR 0x09 \<or> c = CHR 0x0A \<or> c = CHR 0x0B \<or> c = CHR 0x0C \<or> c = CHR 0x0D \<or> c = CHR 0x20)"

definition trim :: "string \<Rightarrow> string" where
  \<comment> \<open>\<open>s.trim()\<close>\<close>
  "trim s = rev (dropWhile isWhiteSpace (rev (dropWhile isWhiteSpace s)))"

fun splitOn :: "char \<Rightarrow> string \<Rightarrow> string list" where
  \<comment> \<open>\<open>s.split(sep)\<close> for a separator of one character; the empty string gives \<open>['']\<close>\<close>
  "splitOn sep [] = [[]]"
| "splitOn sep (c # cs) =
     (if c = sep then [] # splitOn sep cs
      else (case splitOn sep cs of
              [] \<Rightarrow> [[c]]
            | w # ws \<Rightarrow> (c # w) # ws))"

fun joinWith :: "string \<Rightarrow> string list \<Rightarrow> string" where
  \<comment> \<open>\<open>xs.join(sep)\<close>; the empty array gives \<open>''\<close>\<close>
  "joinWith sep [] = []"
| "joinWith sep [x] = x"
| "joinWith sep (x # y # ys) = x @ sep @ joinWith sep (y # ys)"

definition startsWith :: "string \<Rightarrow> string \<Rightarrow> bool" where
  \<comment> \<open>\<open>s.startsWith(p)\<close>\<close>
  "startsWith s p = (take (length p) s = p)"

definition endsWith :: "string \<Rightarrow> string \<Rightarrow> bool" where
  \<comment> \<open>\<open>s.endsWith(p)\<close>\<close>
  "endsWith s p = (drop (length s - length p) s = p)"

definition includesChar :: "string \<Rightarrow> char \<Rightarrow> bool" where
  \<comment> \<open>\<open>s.includes(c)\<close> for a single character\<close>
  "includesChar s c = (c \<in> set s)"

definition indexOf :: "string \<Rightarrow> char \<Rightarrow> int" where
  \<comment> \<open>\<open>s.indexOf(c)\<close>: the first position of \<open>c\<close>, or \<open>-1\<close>\<close>
  "indexOf s c = (if c \<in> set s then int (length (takeWhile (\<lambda>x. x \<noteq> c) s)) else - 1)"

definition slice :: "string \<Rightarrow> int \<Rightarrow> string" where
  \<comment> \<open>\<open>s.slice(start)\<close>; a negative start counts from the end\<close>
  "slice s start =
     (if start < 0 then drop (length s - nat (- start)) s else drop (nat start) s)"

definition stripMarker :: "string \<Rightarrow> string" where
  \<comment> \<open>\<open>line.replace(/^#\s?/, '')\<close>: the marker and at most one white space after it\<close>
  "stripMarker line =
     (case line of
        [] \<Rightarrow> []
      | c # rest \<Rightarrow>
          if c = CHR ''#'' then
            (case rest of
               [] \<Rightarrow> []
             | d # rest' \<Rightarrow> if isWhiteSpace d then rest' else rest)
          else line)"

definition digitChar :: "nat \<Rightarrow> char" where
  "digitChar d = ''0123456789'' ! (d mod 10)"

fun showNat :: "nat \<Rightarrow> string" where
  \<comment> \<open>the decimal digits of a natural number\<close>
  "showNat n = (if n < 10 then [digitChar n] else showNat (n div 10) @ [digitChar n])"

declare showNat.simps [simp del]

definition toString :: "int \<Rightarrow> string" where
  \<comment> \<open>\<open>n.toString()\<close> for an integer\<close>
  "toString n = (if n < 0 then CHR ''-'' # showNat (nat (- n)) else showNat (nat n))"

definition padStart :: "string \<Rightarrow> nat \<Rightarrow> char \<Rightarrow> string" where
  \<comment> \<open>\<open>s.padStart(n, c)\<close>\<close>
  "padStart s n c = replicate (n - length s) c @ s"

section \<open>The parser\<close>

text \<open>\<open>EnvEntry\<close>: the name of a variable and its comment, \<open>null\<close> being \<open>None\<close>.\<close>

record EnvEntry =
  key :: string
  comment :: "string option"

text \<open>
  The body of the loop of \<open>parseEnvFile\<close>: one raw line against the entries found so
  far and the comment buffer. Each \<open>continue\<close> of the source is a branch that returns
  the pair. \<open>[left, ...rest]\<close> takes the head and the tail of the split, which is never
  empty.
\<close>

definition parseLine :: "string \<Rightarrow> EnvEntry list \<times> string list \<Rightarrow> EnvEntry list \<times> string list" where
  "parseLine rawLine st =
     (case st of (entries, commentBuffer) \<Rightarrow>
        let line = trim rawLine in
        if line = [] then (entries, [])
        else if startsWith line ''#'' then (entries, commentBuffer @ [stripMarker line])
        else if \<not> includesChar line CHR ''='' then (entries, [])
        else
          let cleaned = (if startsWith line ''export '' then slice line 7 else line);
              parts = splitOn CHR ''='' cleaned;
              left = hd parts;
              rest = tl parts;
              k = trim left;
              valuePart = joinWith ''='' rest;
              hashIndex = indexOf valuePart CHR ''#'';
              inlineComment =
                (if hashIndex \<noteq> - 1 then Some (trim (slice valuePart (hashIndex + 1))) else None);
              comments =
                commentBuffer @
                (case inlineComment of
                   None \<Rightarrow> []
                 | Some c \<Rightarrow> if c \<noteq> [] then [c] else [])
          in (entries @
                [\<lparr>key = k,
                  comment = (if comments \<noteq> [] then Some (joinWith [LF] comments) else None)\<rparr>],
              []))"

text \<open>The loop over the lines, from no entries and an empty buffer, and the method.\<close>

definition parseLines :: "string list \<Rightarrow> EnvEntry list" where
  "parseLines lines = fst (fold parseLine lines ([], []))"

definition parseEnvFile :: "string \<Rightarrow> EnvEntry list" where
  "parseEnvFile content = parseLines (splitOn LF content)"

text \<open>
  Names for the three kinds of line the loop tells apart, and for the pieces of a
  declaration; the theorems are stated with them.
\<close>

definition isBlank :: "string \<Rightarrow> bool" where
  "isBlank rawLine = (trim rawLine = [])"

definition isCommentLine :: "string \<Rightarrow> bool" where
  "isCommentLine rawLine = startsWith (trim rawLine) ''#''"

definition isDeclaration :: "string \<Rightarrow> bool" where
  "isDeclaration rawLine =
     (trim rawLine \<noteq> [] \<and> \<not> startsWith (trim rawLine) ''#'' \<and> includesChar (trim rawLine) CHR ''='')"

definition commentText :: "string \<Rightarrow> string" where
  \<comment> \<open>what a comment line adds to the buffer\<close>
  "commentText rawLine = stripMarker (trim rawLine)"





section \<open>Rendering\<close>

text \<open>The generator instance: the three fields its constructor sets.\<close>

record EnvTypesGenerator =
  envFiles :: "string list"
  outputPath :: string
  disablePartialType :: bool

definition generateJSDoc :: "string \<Rightarrow> string" where
  "generateJSDoc c =
     ''    /**'' @ [LF] @
     joinWith [LF] (map (\<lambda>line. ''     * '' @ line) (splitOn LF c)) @
     [LF] @ ''     */''"

text \<open>
  \<open>!comment\<close> holds for \<open>null\<close> and for the empty string. The member line is written
  twice in the source, once in each branch, and so it is here.
\<close>

definition generateInterfaceBody :: "EnvTypesGenerator \<Rightarrow> EnvEntry list \<Rightarrow> string" where
  "generateInterfaceBody g entries =
     joinWith [LF]
       (map (\<lambda>e.
          case comment e of
            None \<Rightarrow>
              ''    '' @ key e @ (if disablePartialType g then [] else ''?'') @ '': string;''
          | Some c \<Rightarrow>
              if c = [] then
                ''    '' @ key e @ (if disablePartialType g then [] else ''?'') @ '': string;''
              else
                generateJSDoc c @ [LF] @
                ''    '' @ key e @ (if disablePartialType g then [] else ''?'') @ '': string;'')
        entries)"

text \<open>
  The clock: what \<open>new Date()\<close> answers to the six getters \<open>generateContent\<close> calls.
\<close>

record Date =
  getFullYear :: int
  getMonth :: int
  getDate :: int
  getHours :: int
  getMinutes :: int
  getSeconds :: int

definition pad :: "int \<Rightarrow> string" where
  "pad n = padStart (toString n) 2 CHR ''0''"

definition generateContent :: "Date \<Rightarrow> string" where
  "generateContent now =
     ''Generated: '' @ toString (getFullYear now) @ ''-'' @ pad (getMonth now + 1) @ ''-'' @
     pad (getDate now) @ ''T'' @ pad (getHours now) @ '':'' @ pad (getMinutes now) @ '':'' @
     pad (getSeconds now)"

text \<open>
  The first line of the artifact holds a warning sign (U+26A0, U+FE0F) and a dash
  (U+2014); they are written as their UTF-8 bytes.
\<close>

definition warningLine :: string where
  "warningLine =
     ''// '' @ [CHR 0xE2, CHR 0x9A, CHR 0xA0, CHR 0xEF, CHR 0xB8, CHR 0x8F] @
     '' AUTO-GENERATED FILE '' @ [CHR 0xE2, CHR 0x80, CHR 0x94] @ '' DO NOT EDIT''"

definition generateDTS :: "EnvTypesGenerator \<Rightarrow> EnvEntry list \<Rightarrow> string \<Rightarrow> Date \<Rightarrow> string" where
  "generateDTS g entries sourceFile now =
     (let body = generateInterfaceBody g entries in
      warningLine @ [LF] @
      ''// Source: '' @ sourceFile @ [LF] @
      ''// '' @ generateContent now @ [LF] @
      [LF] @
      ''declare namespace NodeJS {'' @ [LF] @
      ''  interface ProcessEnv {'' @ [LF] @
      body @ [LF] @
      ''  }'' @ [LF] @
      ''}'' @ [LF] @
      [LF] @
      ''export {};'' @ [LF])"

definition stripMetadata :: "string \<Rightarrow> string" where
  \<comment> \<open>the local function of \<open>shouldUpdate\<close>\<close>
  "stripMetadata content =
     joinWith [LF] (filter (\<lambda>line. \<not> startsWith line ''// Generated:'') (splitOn LF content))"

section \<open>The file system and the console\<close>

text \<open>
  What the generator reads and writes outside itself: the file system, a map from
  absolute paths to files and directories, and the two console streams.
  Every call of \<open>fs\<close> resolves its path against the working directory first;
  \<open>path.resolve(process.cwd(), p)\<close> and \<open>path.dirname\<close> belong to Node and are
  parameters of the model. A call either returns a value or throws, and in both cases
  leaves a world behind.
\<close>

datatype node = File string | Directory

record world =
  nodes :: "string \<rightharpoonup> node"
  stdout :: "string list"
  stderr :: "string list"

record pathModule =
  pathResolve :: "string \<Rightarrow> string"
  pathDirname :: "string \<Rightarrow> string"

datatype error =
    Error string  \<comment> \<open>\<open>new Error(message)\<close>\<close>
  | SystemError string  \<comment> \<open>an error of Node's own, by its code\<close>

fun message :: "error \<Rightarrow> string" where
  "message (Error m) = m"
| "message (SystemError code) = code"

datatype 'a outcome = Returned 'a world | Threw error world

definition existsSync :: "pathModule \<Rightarrow> world \<Rightarrow> string \<Rightarrow> bool" where
  "existsSync P w p = (nodes w (pathResolve P p) \<noteq> None)"

definition readFileSync :: "pathModule \<Rightarrow> string \<Rightarrow> world \<Rightarrow> string outcome" where
  "readFileSync P p w =
     (case nodes w (pathResolve P p) of
        None \<Rightarrow> Threw (SystemError ''ENOENT'') w
      | Some Directory \<Rightarrow> Threw (SystemError ''EISDIR'') w
      | Some (File c) \<Rightarrow> Returned c w)"

text \<open>
  \<open>mkdirSync(dir, { recursive: true })\<close> makes the directory and what is missing
  above it; the model records the directory itself. \<open>writeFileSync\<close> needs the parent to
  be a directory and the target not to be one.
\<close>

definition mkdirSync :: "pathModule \<Rightarrow> string \<Rightarrow> world \<Rightarrow> unit outcome" where
  "mkdirSync P p w =
     (case nodes w (pathResolve P p) of
        Some (File c) \<Rightarrow> Threw (SystemError ''EEXIST'') w
      | _ \<Rightarrow> Returned () (w\<lparr>nodes := (nodes w)(pathResolve P p \<mapsto> Directory)\<rparr>))"

definition writeFileSync :: "pathModule \<Rightarrow> string \<Rightarrow> string \<Rightarrow> world \<Rightarrow> unit outcome" where
  "writeFileSync P p c w =
     (case nodes w (pathResolve P p) of
        Some Directory \<Rightarrow> Threw (SystemError ''EISDIR'') w
      | _ \<Rightarrow>
          (case nodes w (pathResolve P (pathDirname P p)) of
             None \<Rightarrow> Threw (SystemError ''ENOENT'') w
           | Some (File d) \<Rightarrow> Threw (SystemError ''ENOTDIR'') w
           | Some Directory \<Rightarrow> Returned () (w\<lparr>nodes := (nodes w)(pathResolve P p \<mapsto> File c)\<rparr>)))"

definition consoleLog :: "string \<Rightarrow> world \<Rightarrow> world" where
  "consoleLog m w = w\<lparr>stdout := stdout w @ [m]\<rparr>"

definition consoleError :: "string \<Rightarrow> world \<Rightarrow> world" where
  "consoleError m w = w\<lparr>stderr := stderr w @ [m]\<rparr>"

section \<open>The generator\<close>

text \<open>
  The options object, with the properties the package's declaration file and its tests
  give it. The constructor reads three of them.
\<close>

record EnvTypesGeneratorOptions =
  optEnvFiles :: "string list"
  optOutputPath :: string
  optSilent :: "bool option"
  optDisablePartialType :: "bool option"
  optAddExportEnds :: "bool option"
  optNamespace :: "string option"
  optInterface :: "string option"
  optUseValuesAsTypes :: "bool option"

definition newEnvTypesGenerator :: "pathModule \<Rightarrow> EnvTypesGeneratorOptions \<Rightarrow> EnvTypesGenerator" where
  "newEnvTypesGenerator P options =
     \<lparr>envFiles = optEnvFiles options,
      outputPath = pathResolve P (optOutputPath options),
      disablePartialType =
        (case optDisablePartialType options of None \<Rightarrow> False | Some b \<Rightarrow> b)\<rparr>"

definition findEnvFile :: "pathModule \<Rightarrow> EnvTypesGenerator \<Rightarrow> world \<Rightarrow> string outcome" where
  "findEnvFile P g w =
     (case find (existsSync P w) (envFiles g) of
        Some file \<Rightarrow> Returned file w
      | None \<Rightarrow>
          Threw (Error (''No env files found. Searched: '' @ joinWith '', '' (envFiles g))) w)"

definition shouldUpdate :: "pathModule \<Rightarrow> EnvTypesGenerator \<Rightarrow> string \<Rightarrow> world \<Rightarrow> bool outcome" where
  "shouldUpdate P g newContent w =
     (if \<not> existsSync P w (outputPath g) then Returned True w
      else
        (case readFileSync P (outputPath g) w of
           Threw e w' \<Rightarrow> Threw e w'
         | Returned currentContent w' \<Rightarrow>
             Returned (stripMetadata currentContent \<noteq> stripMetadata newContent) w'))"

definition ensureOutputDirectory :: "pathModule \<Rightarrow> EnvTypesGenerator \<Rightarrow> world \<Rightarrow> unit outcome" where
  "ensureOutputDirectory P g w =
     (let dir = pathDirname P (outputPath g) in
      if \<not> existsSync P w dir then
        (case mkdirSync P dir w of
           Threw e w' \<Rightarrow> Threw e w'
         | Returned u w' \<Rightarrow> Returned () (consoleLog (''[env-types] Created directory: '' @ dir) w'))
      else Returned () w)"

text \<open>The arrow of the last message (U+2192) is written as its UTF-8 bytes.\<close>

definition generatedMessage :: "nat \<Rightarrow> string \<Rightarrow> string \<Rightarrow> string" where
  "generatedMessage n envFile out =
     ''[env-types] Generated '' @ toString (int n) @ '' keys from '' @ envFile @
     '' '' @ [CHR 0xE2, CHR 0x86, CHR 0x92] @ '' '' @ out"

definition generate :: "pathModule \<Rightarrow> EnvTypesGenerator \<Rightarrow> Date \<Rightarrow> world \<Rightarrow> unit outcome" where
  "generate P g now w =
     (case findEnvFile P g w of
        Threw e w1 \<Rightarrow> Threw e w1
      | Returned envFile w1 \<Rightarrow>
          (case readFileSync P envFile w1 of
             Threw e w2 \<Rightarrow> Threw e w2
           | Returned content w2 \<Rightarrow>
               let entries = parseEnvFile content;
                   dts = generateDTS g entries envFile now
               in
                 (case shouldUpdate P g dts w2 of
                    Threw e w3 \<Rightarrow> Threw e w3
                  | Returned update w3 \<Rightarrow>
                      if \<not> update then
                        Returned () (consoleLog ''[env-types] Types are up to date, skipping write'' w3)
                      else
                        (case ensureOutputDirectory P g w3 of
                           Threw e w4 \<Rightarrow> Threw e w4
                         | Returned u w4 \<Rightarrow>
                             (case writeFileSync P (outputPath g) dts w4 of
                                Threw e w5 \<Rightarrow> Threw e w5
                              | Returned u' w5 \<Rightarrow>
                                  Returned ()
                                    (consoleLog
                                       (generatedMessage (length entries) envFile (outputPath g))
                                       w5))))))"

text \<open>
  The command-line entry point at the end of the module. It reads two variables of the
  environment, leaves with status 1 when the output path is missing, and otherwise runs
  \<open>generate\<close>; an exception nobody catches ends the process with status 1 and is
  reported on the error stream, here by its message.
\<close>

definition cliOptions :: "string list \<Rightarrow> string \<Rightarrow> EnvTypesGeneratorOptions" where
  \<comment> \<open>\<open>{ envFiles, outputPath }\<close>\<close>
  "cliOptions files out =
     \<lparr>optEnvFiles = files, optOutputPath = out, optSilent = None,
      optDisablePartialType = None, optAddExportEnds = None, optNamespace = None,
      optInterface = None, optUseValuesAsTypes = None\<rparr>"

definition cliMain :: "pathModule \<Rightarrow> Date \<Rightarrow> (string \<rightharpoonup> string) \<Rightarrow> world \<Rightarrow> int \<times> world" where
  "cliMain P now env w =
     (let files =
            splitOn CHR '',''
              (case env ''ENV_FILES'' of
                 None \<Rightarrow> ''.env.example,.env''
               | Some v \<Rightarrow> if v = [] then ''.env.example,.env'' else v);
          missing =
            (1, consoleError ''[env-types] ERROR: OUTPUT_PATH environment variable is required'' w)
      in
        (case env ''OUTPUT_PATH'' of
           None \<Rightarrow> missing
         | Some out \<Rightarrow>
             if out = [] then missing
             else
               (case generate P (newEnvTypesGenerator P (cliOptions files out)) now w of
                  Returned u w' \<Rightarrow> (0, w')
                | Threw e w' \<Rightarrow> (1, consoleError (message e) w'))))"

section \<open>The webpack plugin\<close>

text \<open>
  The plugin instance: its resolved options and the absolute output path.
\<close>

record EnvTypesPlugin =
  pluginEnvFiles :: "string list"
  pluginOutputPath :: string
  generatorScript :: string
  silent :: bool
  outputAbsolutePath :: string

datatype stdio = Pipe | Inherit

text \<open>
  \<open>execSync\<close> belongs to Node: it is a parameter, a function of the command, the
  \<open>stdio\<close> setting and the variables added to the environment, which returns or throws.
\<close>

type_synonym execSync = "string \<Rightarrow> stdio \<Rightarrow> (string \<times> string) list \<Rightarrow> world \<Rightarrow> unit outcome"

definition pluginEnsureOutputDirectory :: "pathModule \<Rightarrow> EnvTypesPlugin \<Rightarrow> world \<Rightarrow> unit outcome" where
  "pluginEnsureOutputDirectory P plugin w =
     (let outputDir = pathDirname P (outputAbsolutePath plugin) in
      if \<not> existsSync P w outputDir then
        (case mkdirSync P outputDir w of
           Returned u w' \<Rightarrow>
             Returned ()
               (if \<not> silent plugin
                then consoleLog (''[EnvTypesPlugin] Created directory: '' @ outputDir) w'
                else w')
         | Threw e w' \<Rightarrow>
             Threw
               (Error (''[EnvTypesPlugin] Failed to create output directory: '' @ outputDir @
                       [LF] @ message e))
               w')
      else Returned () w)"

text \<open>
  \<open>generateTypes\<close>: the \<open>try\<close> block is the inner \<open>case\<close>, the \<open>catch\<close> clause the
  branch for \<open>Threw\<close>. \<open>console.error\<close> prints its two arguments with a space between.
\<close>

definition generateTypes :: "pathModule \<Rightarrow> execSync \<Rightarrow> EnvTypesPlugin \<Rightarrow> world \<Rightarrow> unit outcome" where
  "generateTypes P exec plugin w =
     (case
        (case pluginEnsureOutputDirectory P plugin w of
           Threw e w1 \<Rightarrow> Threw e w1
         | Returned u w1 \<Rightarrow>
             exec (''node '' @ generatorScript plugin)
               (if silent plugin then Pipe else Inherit)
               [(''ENV_FILES'', joinWith '','' (pluginEnvFiles plugin)),
                (''OUTPUT_PATH'', pluginOutputPath plugin)]
               w1)
      of
        Returned u w2 \<Rightarrow> Returned () w2
      | Threw e w2 \<Rightarrow>
          Returned ()
            (consoleError (''[EnvTypesPlugin] Failed to generate env types:'' @ '' '' @ message e) w2))"

definition hasEnvFileChanged :: "EnvTypesPlugin \<Rightarrow> string list \<Rightarrow> bool" where
  "hasEnvFileChanged plugin changedFiles =
     list_ex (\<lambda>file. list_ex (\<lambda>envFile. endsWith file envFile) (pluginEnvFiles plugin)) changedFiles"

text \<open>
  The two hooks of \<open>apply\<close> that call \<open>generateTypes\<close>. The hook before a compilation
  is asynchronous: it ends by calling the callback webpack gave it, which is the
  continuation here. \<open>compiler.modifiedFiles\<close> is a set or \<open>undefined\<close>.
\<close>

definition beforeCompileHook ::
  "pathModule \<Rightarrow> execSync \<Rightarrow> EnvTypesPlugin \<Rightarrow> (world \<Rightarrow> unit outcome) \<Rightarrow> world \<Rightarrow> unit outcome" where
  "beforeCompileHook P exec plugin callback w =
     (case generateTypes P exec plugin w of
        Threw e w' \<Rightarrow> Threw e w'
      | Returned u w' \<Rightarrow> callback w')"

definition watchRunHook ::
  "pathModule \<Rightarrow> execSync \<Rightarrow> EnvTypesPlugin \<Rightarrow> string list option \<Rightarrow> world \<Rightarrow> unit outcome" where
  "watchRunHook P exec plugin modifiedFiles w =
     (case modifiedFiles of
        None \<Rightarrow> Returned () w
      | Some changedFiles \<Rightarrow>
          if hasEnvFileChanged plugin changedFiles then generateTypes P exec plugin w
          else Returned () w)"

section \<open>Instances for the examples\<close>

text \<open>
  Paths for the examples: a path resolves to itself, and the directory of a path is what
  stands before its last slash.
\<close>

definition unixPaths :: pathModule where
  "unixPaths =
     \<lparr>pathResolve = (\<lambda>p. p),
      pathDirname = (\<lambda>p. rev (drop 1 (dropWhile (\<lambda>c. c \<noteq> CHR ''/'') (rev p))))\<rparr>"

text \<open>
  One \<open>execSync\<close>: the command runs the generator's entry point as a child process on
  the same file system. With \<open>stdio: 'pipe'\<close> the child's output does not reach the
  console; a status other than 0 makes \<open>execSync\<close> throw.
\<close>

definition execGenerator :: "pathModule \<Rightarrow> Date \<Rightarrow> execSync" where
  "execGenerator P now command io env w =
     (case cliMain P now (map_of env) w of
        (status, w') \<Rightarrow>
          let w'' = (case io of Inherit \<Rightarrow> w' | Pipe \<Rightarrow> w'\<lparr>stdout := stdout w, stderr := stderr w\<rparr>)
          in if status = 0 then Returned () w''
             else Threw (Error (''Command failed: '' @ command)) w'')"

text \<open>
  A project for the examples: the directory \<open>/app\<close> holds \<open>.env\<close> with one variable and
  no \<open>.env.local\<close>; the output goes to \<open>/app/types/env.d.ts\<close>, which does not exist yet.
  The clock stands at 15 January 2024, 10:30, with the seconds left open.
\<close>

definition exampleGenerator :: EnvTypesGenerator where
  "exampleGenerator =
     \<lparr>envFiles = [''/app/.env.local'', ''/app/.env''], outputPath = ''/app/types/env.d.ts'',
      disablePartialType = False\<rparr>"

definition exampleWorld :: world where
  "exampleWorld =
     \<lparr>nodes = [''/app'' \<mapsto> Directory, ''/app/.env'' \<mapsto> File ''DB_HOST=localhost''],
      stdout = [], stderr = []\<rparr>"

definition exampleDate :: "int \<Rightarrow> Date" where
  "exampleDate s =
     \<lparr>getFullYear = 2024, getMonth = 0, getDate = 15, getHours = 10, getMinutes = 30,
      getSeconds = s\<rparr>"

text \<open>The same project with an output file of an earlier second already on disk.\<close>

definition staleWorld :: world where
  "staleWorld =
     exampleWorld
       \<lparr>nodes :=
          (nodes exampleWorld)
            (''/app/types'' \<mapsto> Directory,
             ''/app/types/env.d.ts'' \<mapsto>
               File (joinWith [LF]
                 [''// Source: /app/.env'', ''// Generated: 2024-01-15T10:30:00'', ''export {};'']))\<rparr>"

definition examplePlugin :: EnvTypesPlugin where
  "examplePlugin =
     \<lparr>pluginEnvFiles = [''.env.staging''], pluginOutputPath = ''/app/types/env.d.ts'',
      generatorScript = ''/app/dist/EnvTypesGenerator.js'', silent = False,
      outputAbsolutePath = ''/app/types/env.d.ts''\<rparr>"

section \<open>Facts about the string functions\<close>

text \<open>
  Splitting and joining are inverse to each other: joining the split gives the string
  back, and splitting a join of pieces without the separator gives the pieces back. No
  piece of a split holds the separator, so no line of a file holds a line feed.
\<close>

lemma splitOn_not_Nil [simp]: "splitOn sep s \<noteq> []"
  by (induction s) (auto split: list.splits)

lemma splitOn_no_sep: "x \<in> set (splitOn sep s) \<Longrightarrow> sep \<notin> set x"
proof (induction s arbitrary: x)
  case Nil
  then show ?case by simp
next
  case (Cons c cs)
  show ?case
  proof (cases "c = sep")
    case True
    with Cons show ?thesis by auto
  next
    case False
    obtain w ws where ws: "splitOn sep cs = w # ws"
      by (cases "splitOn sep cs") auto
    with Cons False show ?thesis by auto
  qed
qed

lemma splitOn_append_sep: "splitOn sep (a @ sep # b) = splitOn sep a @ splitOn sep b"
proof (induction a)
  case Nil
  then show ?case by simp
next
  case (Cons c cs)
  obtain w ws where ws: "splitOn sep cs = w # ws"
    by (cases "splitOn sep cs") auto
  with Cons show ?case by simp
qed

lemma splitOn_no_sep_id: "sep \<notin> set s \<Longrightarrow> splitOn sep s = [s]"
  by (induction s) auto

lemma joinWith_Cons: "xs \<noteq> [] \<Longrightarrow> joinWith sep (x # xs) = x @ sep @ joinWith sep xs"
  by (cases xs) auto

lemma splitOn_joinWith:
  "xs \<noteq> [] \<Longrightarrow> (\<And>x. x \<in> set xs \<Longrightarrow> sep \<notin> set x) \<Longrightarrow> splitOn sep (joinWith [sep] xs) = xs"
proof (induction xs)
  case Nil
  then show ?case by simp
next
  case (Cons x xs)
  show ?case
  proof (cases "xs = []")
    case True
    with Cons.prems show ?thesis by (simp add: splitOn_no_sep_id)
  next
    case False
    have "splitOn sep (joinWith [sep] (x # xs)) = splitOn sep (x @ sep # joinWith [sep] xs)"
      using False by (simp add: joinWith_Cons)
    also have "\<dots> = splitOn sep x @ splitOn sep (joinWith [sep] xs)"
      by (rule splitOn_append_sep)
    also have "\<dots> = [x] @ xs"
      using Cons False by (simp add: splitOn_no_sep_id)
    finally show ?thesis by simp
  qed
qed





lemma trim_prefix: "\<exists>zs. dropWhile isWhiteSpace s = trim s @ zs"
proof -
  let ?u = "dropWhile isWhiteSpace s"
  have "rev ?u = takeWhile isWhiteSpace (rev ?u) @ dropWhile isWhiteSpace (rev ?u)"
    by simp
  then have "?u = rev (dropWhile isWhiteSpace (rev ?u)) @ rev (takeWhile isWhiteSpace (rev ?u))"
    by (metis rev_append rev_rev_ident)
  then show ?thesis unfolding trim_def by blast
qed

lemma trim_hd: "trim s \<noteq> [] \<Longrightarrow> \<not> isWhiteSpace (hd (trim s))"
proof -
  assume ne: "trim s \<noteq> []"
  obtain zs where zs: "dropWhile isWhiteSpace s = trim s @ zs"
    using trim_prefix by blast
  with ne have "hd (trim s) = hd (dropWhile isWhiteSpace s)" by simp
  moreover from zs ne have "dropWhile isWhiteSpace s \<noteq> []" by auto
  ultimately show ?thesis by (simp add: hd_dropWhile)
qed

lemma trim_last: "trim s \<noteq> [] \<Longrightarrow> \<not> isWhiteSpace (last (trim s))"
proof -
  assume ne: "trim s \<noteq> []"
  let ?r = "dropWhile isWhiteSpace (rev (dropWhile isWhiteSpace s))"
  from ne have r: "?r \<noteq> []" by (simp add: trim_def)
  have "last (trim s) = hd ?r" using r by (simp add: trim_def last_rev)
  with r show ?thesis by (simp add: hd_dropWhile)
qed

lemma dropWhile_hd_id: "xs \<noteq> [] \<Longrightarrow> \<not> P (hd xs) \<Longrightarrow> dropWhile P xs = xs"
  by (cases xs) auto

lemma trim_idem [simp]: "trim (trim s) = trim s"
proof (cases "trim s = []")
  case True
  have "trim [] = []" by (simp add: trim_def)
  with True show ?thesis by simp
next
  case False
  have a: "dropWhile isWhiteSpace (trim s) = trim s"
    using trim_hd [OF False] False by (rule_tac dropWhile_hd_id)
  have "rev (trim s) \<noteq> []" using False by simp
  moreover have "hd (rev (trim s)) = last (trim s)" using False by (simp add: hd_rev)
  ultimately have b: "dropWhile isWhiteSpace (rev (trim s)) = rev (trim s)"
    using trim_last [OF False] by (intro dropWhile_hd_id) simp_all
  show ?thesis
    unfolding trim_def [of "trim s"] a b by simp
qed



section \<open>Facts about the parser\<close>

text \<open>
  One fact for each kind of line, in the order of the loop's tests: a blank line, a
  comment line, a line without \<open>=\<close>, a declaration.
\<close>

lemma parseLine_blank: "isBlank l \<Longrightarrow> parseLine l (es, buf) = (es, [])"
  by (simp add: parseLine_def isBlank_def)

lemma startsWith_hash_nonempty: "startsWith s ''#'' \<Longrightarrow> s \<noteq> []"
  by (auto simp: startsWith_def)

lemma parseLine_comment:
  "isCommentLine l \<Longrightarrow> parseLine l (es, buf) = (es, buf @ [commentText l])"
  by (auto simp: parseLine_def isCommentLine_def commentText_def Let_def
      dest: startsWith_hash_nonempty)

lemma parseLine_other:
  "\<not> isBlank l \<Longrightarrow> \<not> isCommentLine l \<Longrightarrow> \<not> isDeclaration l \<Longrightarrow> parseLine l (es, buf) = (es, [])"
  by (simp add: parseLine_def isBlank_def isCommentLine_def isDeclaration_def Let_def)












lemma fold_parseLine_comments:
  "(\<And>c. c \<in> set cs \<Longrightarrow> isCommentLine c) \<Longrightarrow>
   fold parseLine cs (es, buf) = (es, buf @ map commentText cs)"
  by (induction cs arbitrary: buf) (simp_all add: parseLine_comment)


lemma fold_parseLine_blank_state:
  "isBlank blank \<Longrightarrow> parseLine blank st = (fst st, [])"
  by (cases st) (simp add: parseLine_blank)


section \<open>Facts about the generator\<close>

text \<open>
  What a call that returned says about the world before and after it, first for the
  steps of \<open>generate\<close>, then for \<open>generate\<close>: the source it found and read, the file at
  the output path afterwards, and the paths it left alone.
\<close>

lemma findEnvFile_Returned:
  "findEnvFile P g w = Returned f w' \<longleftrightarrow> w' = w \<and> find (existsSync P w) (envFiles g) = Some f"
  by (auto simp: findEnvFile_def split: option.splits)

lemma findEnvFile_Threw:
  "findEnvFile P g w = Threw e w' \<longleftrightarrow>
     w' = w \<and> find (existsSync P w) (envFiles g) = None \<and>
     e = Error (''No env files found. Searched: '' @ joinWith '', '' (envFiles g))"
  by (auto simp: findEnvFile_def split: option.splits)

lemma readFileSync_Returned:
  "readFileSync P p w = Returned c w' \<longleftrightarrow> w' = w \<and> nodes w (pathResolve P p) = Some (File c)"
  by (auto simp: readFileSync_def split: option.splits node.splits)

lemma readFileSync_Threw_world: "readFileSync P p w = Threw e w' \<Longrightarrow> w' = w"
  by (auto simp: readFileSync_def split: option.splits node.splits)

lemma shouldUpdate_Returned:
  "shouldUpdate P g n w = Returned b w' \<longleftrightarrow>
     w' = w \<and>
     (if nodes w (pathResolve P (outputPath g)) = None then b
      else \<exists>cur. nodes w (pathResolve P (outputPath g)) = Some (File cur) \<and>
                 b = (stripMetadata cur \<noteq> stripMetadata n))"
  by (auto simp: shouldUpdate_def existsSync_def readFileSync_def split: option.splits node.splits)

lemma ensureOutputDirectory_Returned:
  assumes "ensureOutputDirectory P g w = Returned u w'"
  shows "nodes w' = nodes w \<or>
         nodes w' = (nodes w)(pathResolve P (pathDirname P (outputPath g)) \<mapsto> Directory)"
  using assms
  by (auto simp: ensureOutputDirectory_def Let_def mkdirSync_def consoleLog_def
      split: if_splits option.splits node.splits outcome.splits)

lemma writeFileSync_Returned:
  assumes "writeFileSync P p c w = Returned u w'"
  shows "w' = w\<lparr>nodes := (nodes w)(pathResolve P p \<mapsto> File c)\<rparr>"
  using assms
  by (auto simp: writeFileSync_def split: option.splits node.splits)

lemma generate_Returned:
  assumes "generate P g now w = Returned u w1"
  shows "\<exists>f c. find (existsSync P w) (envFiles g) = Some f
          \<and> nodes w (pathResolve P f) = Some (File c)
          \<and> (\<exists>cur. nodes w1 (pathResolve P (outputPath g)) = Some (File cur) \<and>
                     stripMetadata cur = stripMetadata (generateDTS g (parseEnvFile c) f now) \<and>
                     (nodes w (pathResolve P (outputPath g)) = None \<longrightarrow>
                        cur = generateDTS g (parseEnvFile c) f now))
          \<and> (\<forall>q. q \<noteq> pathResolve P (outputPath g) \<longrightarrow>
                   q \<noteq> pathResolve P (pathDirname P (outputPath g)) \<longrightarrow> nodes w1 q = nodes w q)"
proof -
  from assms obtain f where f: "findEnvFile P g w = Returned f w"
    by (auto simp: generate_def findEnvFile_Returned split: outcome.splits)
  with assms obtain c where c: "readFileSync P f w = Returned c w"
    by (auto simp: generate_def readFileSync_Returned split: outcome.splits)
  let ?dts = "generateDTS g (parseEnvFile c) f now"
  from assms f c obtain b where b: "shouldUpdate P g ?dts w = Returned b w"
    by (auto simp: generate_def Let_def shouldUpdate_Returned split: outcome.splits)
  have found: "find (existsSync P w) (envFiles g) = Some f"
    using f by (simp add: findEnvFile_Returned)
  have src: "nodes w (pathResolve P f) = Some (File c)"
    using c by (simp add: readFileSync_Returned)
  show ?thesis
  proof (cases b)
    case False
    with assms f c b have w1: "w1 = consoleLog ''[env-types] Types are up to date, skipping write'' w"
      by (simp add: generate_def Let_def)
    from b False obtain cur where
      "nodes w (pathResolve P (outputPath g)) = Some (File cur)"
      "stripMetadata cur = stripMetadata ?dts"
      by (auto simp: shouldUpdate_Returned split: if_splits)
    with found src w1 show ?thesis by (auto simp: consoleLog_def)
  next
    case True
    with assms f c b obtain w4 where w4: "ensureOutputDirectory P g w = Returned () w4"
      by (auto simp: generate_def Let_def split: outcome.splits)
    with assms f c b True obtain w5 where
      w5: "writeFileSync P (outputPath g) ?dts w4 = Returned () w5"
      and w1: "w1 = consoleLog (generatedMessage (length (parseEnvFile c)) f (outputPath g)) w5"
      by (auto simp: generate_def Let_def split: outcome.splits)
    from w5 have n5: "nodes w5 = (nodes w4)(pathResolve P (outputPath g) \<mapsto> File ?dts)"
      by (auto dest: writeFileSync_Returned)
    from ensureOutputDirectory_Returned [OF w4] n5 w1 found src show ?thesis
      by (auto simp: consoleLog_def)
  qed
qed

lemma digitChar_not_LF: "digitChar d \<noteq> LF"
proof -
  have "d mod 10 < length ''0123456789''" by simp
  then have "digitChar d \<in> set ''0123456789''"
    unfolding digitChar_def by (rule nth_mem)
  then show ?thesis by auto
qed

lemma showNat_no_LF: "LF \<notin> set (showNat n)"
proof (induction n rule: showNat.induct)
  case (1 n)
  show ?case
  proof (cases "n < 10")
    case True
    then show ?thesis using digitChar_not_LF [of n] by (subst showNat.simps) auto
  next
    case False
    with 1 show ?thesis using digitChar_not_LF [of n] by (subst showNat.simps) auto
  qed
qed

lemma toString_no_LF: "LF \<notin> set (toString n)"
  by (simp add: toString_def showNat_no_LF)

lemma pad_no_LF: "LF \<notin> set (pad n)"
  by (simp add: pad_def padStart_def toString_no_LF)

lemma generateContent_no_LF: "LF \<notin> set (generateContent now)"
  by (simp add: generateContent_def toString_no_LF pad_no_LF)

lemma timestamp_line_prefix: "startsWith (''// '' @ generateContent now) ''// Generated:''"
  by (simp add: startsWith_def generateContent_def)

lemma stripMetadata_timestamp_line:
  assumes "LF \<notin> set t" and "startsWith t ''// Generated:''"
  shows "stripMetadata (a @ LF # t @ LF # b) = stripMetadata (a @ LF # b)"
proof -
  have "splitOn LF (a @ LF # t @ LF # b) = splitOn LF a @ splitOn LF (t @ LF # b)"
    by (rule splitOn_append_sep)
  also have "splitOn LF (t @ LF # b) = splitOn LF t @ splitOn LF b"
    by (rule splitOn_append_sep)
  also have "splitOn LF t = [t]"
    using assms(1) by (rule splitOn_no_sep_id)
  finally have "splitOn LF (a @ LF # t @ LF # b) = splitOn LF a @ [t] @ splitOn LF b" .
  moreover have "splitOn LF (a @ LF # b) = splitOn LF a @ splitOn LF b"
    by (rule splitOn_append_sep)
  ultimately show ?thesis
    using assms(2) by (simp add: stripMetadata_def)
qed

lemma generateDTS_shape:
  "generateDTS g es src now =
     (warningLine @ LF # ''// Source: '' @ src) @ LF # (''// '' @ generateContent now) @ LF #
     (LF # ''declare namespace NodeJS {'' @ LF # ''  interface ProcessEnv {'' @ LF #
      generateInterfaceBody g es @ LF # ''  }'' @ LF # ''}'' @ LF # LF # ''export {};'' @ [LF])"
  by (simp add: generateDTS_def)

lemma stripMetadata_generateDTS:
  "stripMetadata (generateDTS g es src now1) = stripMetadata (generateDTS g es src now2)"
proof -
  have t: "LF \<notin> set (''// '' @ generateContent now)" for now
    using generateContent_no_LF [of now] by simp
  show ?thesis
    unfolding generateDTS_shape
    by (simp only: stripMetadata_timestamp_line [OF t timestamp_line_prefix])
qed

lemma shouldUpdate_same_modulo_timestamp:
  assumes "nodes w (pathResolve P (outputPath g)) = Some (File cur)"
    and "stripMetadata cur = stripMetadata new"
  shows "shouldUpdate P g new w = Returned False w"
  using assms by (simp add: shouldUpdate_def existsSync_def readFileSync_def)

lemma find_cong_set: "(\<And>x. x \<in> set xs \<Longrightarrow> p x = q x) \<Longrightarrow> find p xs = find q xs"
  by (induction xs) auto

lemma find_Some_mem: "find p xs = Some x \<Longrightarrow> x \<in> set xs"
  by (induction xs) (auto split: if_splits)

lemma generate_keeps_source:
  assumes "generate P g now w = Returned () w1"
    and "pathResolve P (outputPath g) \<notin> pathResolve P ` set (envFiles g)"
    and "pathResolve P (pathDirname P (outputPath g)) \<notin> pathResolve P ` set (envFiles g)"
  shows "\<exists>f. findEnvFile P g w = Returned f w \<and> findEnvFile P g w1 = Returned f w1
             \<and> nodes w1 (pathResolve P f) = nodes w (pathResolve P f)"
proof -
  from assms(1) obtain f where
    found: "find (existsSync P w) (envFiles g) = Some f"
    and frame: "\<forall>q. q \<noteq> pathResolve P (outputPath g) \<longrightarrow>
                   q \<noteq> pathResolve P (pathDirname P (outputPath g)) \<longrightarrow> nodes w1 q = nodes w q"
    using generate_Returned [of P g now w "()" w1] by blast
  have cand: "nodes w1 (pathResolve P x) = nodes w (pathResolve P x)" if "x \<in> set (envFiles g)" for x
    using that assms(2,3) frame by (metis imageI)
  have "find (existsSync P w1) (envFiles g) = find (existsSync P w) (envFiles g)"
    by (rule find_cong_set) (simp add: existsSync_def cand)
  moreover from found have "f \<in> set (envFiles g)" by (rule find_Some_mem)
  ultimately show ?thesis
    using found cand by (auto simp: findEnvFile_Returned)
qed

lemma generate_same_source:
  assumes "findEnvFile P g w = Returned f w" and "findEnvFile P g' w = Returned f w"
    and "outputPath g' = outputPath g" and "disablePartialType g' = disablePartialType g"
  shows "generate P g' now w = generate P g now w"
proof -
  have body: "generateInterfaceBody g' es = generateInterfaceBody g es" for es
    unfolding generateInterfaceBody_def assms(4) ..
  have dts: "generateDTS g' es s n = generateDTS g es s n" for es s n
    unfolding generateDTS_def body ..
  have upd: "shouldUpdate P g' c = shouldUpdate P g c" for c
    unfolding shouldUpdate_def assms(3) ..
  have dir: "ensureOutputDirectory P g' = ensureOutputDirectory P g"
    unfolding ensureOutputDirectory_def assms(3) ..
  show ?thesis
    unfolding generate_def assms(1,2) dts upd dir assms(3) ..
qed

lemma find_first_existing:
  assumes "\<forall>p \<in> set pre. \<not> q p" and "q f"
  shows "find q (pre @ f # post) = Some f"
  using assms by (induction pre) auto

lemmas example_defs =
  exampleGenerator_def exampleWorld_def exampleDate_def unixPaths_def

lemmas run_defs =
  generate_def findEnvFile_def existsSync_def readFileSync_def shouldUpdate_def
  ensureOutputDirectory_def mkdirSync_def writeFileSync_def consoleLog_def Let_def

section \<open>Facts about the plugin\<close>

lemma generateTypes_returns: "\<exists>w'. generateTypes P exec plugin w = Returned () w'"
  by (simp add: generateTypes_def split: outcome.splits)

lemmas plugin_defs =
  examplePlugin_def exampleWorld_def unixPaths_def exampleDate_def
  pluginEnsureOutputDirectory_def execGenerator_def cliMain_def cliOptions_def
  newEnvTypesGenerator_def consoleError_def

section \<open>The claims about parsing and rendering\<close>





text \<open>
  Claim C5. A blank line after a block of comment lines empties the buffer and adds no
  entry, whatever the buffer held. A file with the block and the blank line is parsed,
  and rendered, as the same file without the block: the block reaches no later key.
\<close>

theorem blank_line_clears_comment_buffer:
  assumes "\<forall>c \<in> set cs. isCommentLine c" and "isBlank blank"
    and "\<forall>l \<in> set (pre @ cs @ blank # rest). LF \<notin> set l"
  shows "fold parseLine (cs @ [blank]) (entries, commentBuffer) = (entries, [])
       \<and> parseEnvFile (joinWith [LF] (pre @ cs @ blank # rest))
          = parseEnvFile (joinWith [LF] (pre @ blank # rest))
       \<and> generateInterfaceBody g (parseEnvFile (joinWith [LF] (pre @ cs @ blank # rest)))
          = generateInterfaceBody g (parseEnvFile (joinWith [LF] (pre @ blank # rest)))"
proof -
  have step: "fold parseLine (cs @ [blank]) st = (fst st, [])" for st
    using assms(1,2) by (cases st) (simp add: fold_parseLine_comments parseLine_blank)
  have a: "splitOn LF (joinWith [LF] (pre @ cs @ blank # rest)) = pre @ cs @ blank # rest"
    using assms(3) by (intro splitOn_joinWith) auto
  have b: "splitOn LF (joinWith [LF] (pre @ blank # rest)) = pre @ blank # rest"
    using assms(3) by (intro splitOn_joinWith) auto
  have "fold parseLine (pre @ cs @ blank # rest) ([], [])
      = fold parseLine rest (fold parseLine (cs @ [blank]) (fold parseLine pre ([], [])))"
    by simp
  also have "\<dots> = fold parseLine rest (fst (fold parseLine pre ([], [])), [])"
    by (simp only: step)
  also have "\<dots> = fold parseLine (pre @ blank # rest) ([], [])"
    using assms(2) by (simp add: fold_parseLine_blank_state)
  finally have "parseLines (pre @ cs @ blank # rest) = parseLines (pre @ blank # rest)"
    by (simp add: parseLines_def)
  then have "parseEnvFile (joinWith [LF] (pre @ cs @ blank # rest))
          = parseEnvFile (joinWith [LF] (pre @ blank # rest))"
    by (simp add: parseEnvFile_def a b)
  then show ?thesis using step [of "(entries, commentBuffer)"] by simp
qed

theorem blank_line_clears_comment_buffer_witness:
  "isCommentLine ''# Database port'' \<and> isBlank '' ''
   \<and> list_all (\<lambda>l. LF \<notin> set l) [''DB_HOST=localhost'', ''# Database port'', '' '', ''DB_PORT=5432'']
   \<and> fold parseLine [''# Database port'', '' ''] ([], [''pending'']) = ([], [])
   \<and> parseEnvFile (joinWith [LF] [''DB_HOST=localhost'', ''# Database port'', '' '', ''DB_PORT=5432''])
      = parseEnvFile (joinWith [LF] [''DB_HOST=localhost'', '' '', ''DB_PORT=5432''])
   \<and> parseEnvFile (joinWith [LF] [''DB_HOST=localhost'', '' '', ''DB_PORT=5432''])
      = [\<lparr>key = ''DB_HOST'', comment = None\<rparr>, \<lparr>key = ''DB_PORT'', comment = None\<rparr>]"
proof -
  have h1: "\<forall>c \<in> set [''# Database port'']. isCommentLine c"
    by (simp add: isCommentLine_def trim_def isWhiteSpace_def startsWith_def)
  have h2: "isBlank '' ''"
    by (simp add: isBlank_def trim_def isWhiteSpace_def)
  have h3: "\<forall>l \<in> set ([''DB_HOST=localhost''] @ [''# Database port''] @ '' '' # [''DB_PORT=5432'']).
      LF \<notin> set l"
    by simp
  have v: "parseEnvFile (joinWith [LF] [''DB_HOST=localhost'', '' '', ''DB_PORT=5432''])
      = [\<lparr>key = ''DB_HOST'', comment = None\<rparr>, \<lparr>key = ''DB_PORT'', comment = None\<rparr>]"
    by (simp add: parseEnvFile_def parseLines_def parseLine_def trim_def isWhiteSpace_def
        startsWith_def includesChar_def indexOf_def slice_def Let_def)
  show ?thesis
    using blank_line_clears_comment_buffer
      [OF h1 h2 h3, of "[]" "[''pending'']"
         "\<lparr>envFiles = [], outputPath = [], disablePartialType = False\<rparr>"]
      h1 h2 v
    by simp
qed

text \<open>
  Claim C7. With \<open>useValuesAsTypes: true\<close>, as the test of the option passes it, the
  member for \<open>DB_HOST=localhost\<close> is still typed \<open>string\<close>: the constructor does not read
  the option, so the instance, and with it the rendering, is the same whatever the
  option holds.
\<close>

theorem values_as_types_not_rendered:
  "generateInterfaceBody
     (newEnvTypesGenerator P
        \<lparr>optEnvFiles = [''.env''], optOutputPath = ''env.d.ts'', optSilent = Some True,
         optDisablePartialType = None, optAddExportEnds = None, optNamespace = None,
         optInterface = None, optUseValuesAsTypes = Some True\<rparr>)
     (parseEnvFile ''DB_HOST=localhost'')
   = ''    DB_HOST?: string;''
   \<and> newEnvTypesGenerator P (options\<lparr>optUseValuesAsTypes := v\<rparr>) = newEnvTypesGenerator P options"
  by (simp add: newEnvTypesGenerator_def generateInterfaceBody_def parseEnvFile_def parseLines_def
      parseLine_def trim_def isWhiteSpace_def startsWith_def includesChar_def indexOf_def slice_def
      Let_def)




section \<open>The claims about generation\<close>

text \<open>
  Claim C1. Two artifacts rendered from the same entries and the same source path are
  equal once the timestamp line is stripped, whatever the two clocks show.
  \<open>shouldUpdate\<close> answers \<open>false\<close> when the file at the output path and the candidate
  differ only in lines that start with \<open>// Generated:\<close>. So when a call of \<open>generate\<close> has
  returned and the next call finds the same source file with the same content, the
  next call writes nothing: it logs that the types are up to date and leaves every
  file as it was.
\<close>

theorem regeneration_is_idempotent:
  "stripMetadata (generateDTS g entries sourceFile now1) =
     stripMetadata (generateDTS g entries sourceFile now2)
   \<and> (nodes w (pathResolve P (outputPath g)) = Some (File current)
        \<and> filter (\<lambda>line. \<not> startsWith line ''// Generated:'') (splitOn LF current)
          = filter (\<lambda>line. \<not> startsWith line ''// Generated:'') (splitOn LF newContent)
      \<longrightarrow> shouldUpdate P g newContent w = Returned False w)
   \<and> (generate P g now1 w = Returned () w1
        \<and> findEnvFile P g w = Returned f w \<and> findEnvFile P g w1 = Returned f w1
        \<and> nodes w1 (pathResolve P f) = nodes w (pathResolve P f)
      \<longrightarrow> generate P g now2 w1 =
            Returned () (consoleLog ''[env-types] Types are up to date, skipping write'' w1)
          \<and> nodes (consoleLog ''[env-types] Types are up to date, skipping write'' w1) = nodes w1)"
proof (intro conjI impI)
  show "stripMetadata (generateDTS g entries sourceFile now1) =
     stripMetadata (generateDTS g entries sourceFile now2)"
    by (rule stripMetadata_generateDTS)
next
  assume "nodes w (pathResolve P (outputPath g)) = Some (File current)
        \<and> filter (\<lambda>line. \<not> startsWith line ''// Generated:'') (splitOn LF current)
          = filter (\<lambda>line. \<not> startsWith line ''// Generated:'') (splitOn LF newContent)"
  then have "nodes w (pathResolve P (outputPath g)) = Some (File current)"
    and "stripMetadata current = stripMetadata newContent"
    by (simp_all add: stripMetadata_def)
  then show "shouldUpdate P g newContent w = Returned False w"
    by (rule shouldUpdate_same_modulo_timestamp)
next
  assume a: "generate P g now1 w = Returned () w1
        \<and> findEnvFile P g w = Returned f w \<and> findEnvFile P g w1 = Returned f w1
        \<and> nodes w1 (pathResolve P f) = nodes w (pathResolve P f)"
  then obtain f' c cur where
    found: "find (existsSync P w) (envFiles g) = Some f'"
    and src: "nodes w (pathResolve P f') = Some (File c)"
    and out: "nodes w1 (pathResolve P (outputPath g)) = Some (File cur)"
    and same: "stripMetadata cur = stripMetadata (generateDTS g (parseEnvFile c) f' now1)"
    using generate_Returned [of P g now1 w "()" w1] by blast
  from a found have ff: "f' = f" by (simp add: findEnvFile_Returned)
  from a src ff have r1: "readFileSync P f w1 = Returned c w1"
    by (simp add: readFileSync_Returned)
  have "stripMetadata cur = stripMetadata (generateDTS g (parseEnvFile c) f now2)"
    using same ff stripMetadata_generateDTS by simp
  with out have s1: "shouldUpdate P g (generateDTS g (parseEnvFile c) f now2) w1 = Returned False w1"
    by (rule shouldUpdate_same_modulo_timestamp)
  from a show "generate P g now2 w1 =
            Returned () (consoleLog ''[env-types] Types are up to date, skipping write'' w1)"
    by (simp add: generate_def r1 s1 Let_def)
  show "nodes (consoleLog ''[env-types] Types are up to date, skipping write'' w1) = nodes w1"
    by (simp add: consoleLog_def)
qed

theorem regeneration_is_idempotent_witness:
  "(\<exists>w1. generate unixPaths exampleGenerator (exampleDate 0) exampleWorld = Returned () w1
      \<and> findEnvFile unixPaths exampleGenerator exampleWorld = Returned ''/app/.env'' exampleWorld
      \<and> findEnvFile unixPaths exampleGenerator w1 = Returned ''/app/.env'' w1
      \<and> nodes w1 ''/app/.env'' = nodes exampleWorld ''/app/.env''
      \<and> generate unixPaths exampleGenerator (exampleDate 1) w1 =
           Returned () (consoleLog ''[env-types] Types are up to date, skipping write'' w1))
   \<and> nodes staleWorld (pathResolve unixPaths (outputPath exampleGenerator))
        = Some (File (joinWith [LF] [''// Source: /app/.env'', ''// Generated: 2024-01-15T10:30:00'', ''export {};'']))
   \<and> filter (\<lambda>line. \<not> startsWith line ''// Generated:'')
         (splitOn LF (joinWith [LF] [''// Source: /app/.env'', ''// Generated: 2024-01-15T10:30:00'', ''export {};'']))
       = filter (\<lambda>line. \<not> startsWith line ''// Generated:'')
           (splitOn LF (joinWith [LF] [''// Source: /app/.env'', ''// Generated: 2024-01-15T10:30:01'', ''export {};'']))
   \<and> shouldUpdate unixPaths exampleGenerator
         (joinWith [LF] [''// Source: /app/.env'', ''// Generated: 2024-01-15T10:30:01'', ''export {};''])
         staleWorld
       = Returned False staleWorld"
proof -
  have "\<exists>w1. generate unixPaths exampleGenerator (exampleDate 0) exampleWorld = Returned () w1"
    by (simp add: example_defs run_defs)
  then obtain w1 where
    g1: "generate unixPaths exampleGenerator (exampleDate 0) exampleWorld = Returned () w1" ..
  have f0: "findEnvFile unixPaths exampleGenerator exampleWorld = Returned ''/app/.env'' exampleWorld"
    by (simp add: example_defs findEnvFile_def existsSync_def)
  have "pathResolve unixPaths (outputPath exampleGenerator)
      \<notin> pathResolve unixPaths ` set (envFiles exampleGenerator)"
    and "pathResolve unixPaths (pathDirname unixPaths (outputPath exampleGenerator))
      \<notin> pathResolve unixPaths ` set (envFiles exampleGenerator)"
    by (simp_all add: example_defs)
  from generate_keeps_source [OF g1 this] f0
  have f1: "findEnvFile unixPaths exampleGenerator w1 = Returned ''/app/.env'' w1"
    and n1: "nodes w1 ''/app/.env'' = nodes exampleWorld ''/app/.env''"
    by (auto simp: unixPaths_def)
  from n1 have n1': "nodes w1 (pathResolve unixPaths ''/app/.env'')
      = nodes exampleWorld (pathResolve unixPaths ''/app/.env'')"
    by (simp add: unixPaths_def)
  from regeneration_is_idempotent
    [where g = exampleGenerator and ?now1.0 = "exampleDate 0" and ?now2.0 = "exampleDate 1"
       and w = exampleWorld and P = unixPaths and ?w1.0 = w1 and f = "''/app/.env''"]
    g1 f0 f1 n1'
  have second: "generate unixPaths exampleGenerator (exampleDate 1) w1 =
      Returned () (consoleLog ''[env-types] Types are up to date, skipping write'' w1)"
    by blast
  let ?old = "joinWith [LF] [''// Source: /app/.env'', ''// Generated: 2024-01-15T10:30:00'', ''export {};'']"
  let ?new = "joinWith [LF] [''// Source: /app/.env'', ''// Generated: 2024-01-15T10:30:01'', ''export {};'']"
  have cur: "nodes staleWorld (pathResolve unixPaths (outputPath exampleGenerator)) = Some (File ?old)"
    by (simp add: staleWorld_def example_defs)
  have same: "filter (\<lambda>line. \<not> startsWith line ''// Generated:'') (splitOn LF ?old)
       = filter (\<lambda>line. \<not> startsWith line ''// Generated:'') (splitOn LF ?new)"
    by (simp add: startsWith_def)
  from regeneration_is_idempotent
    [where g = exampleGenerator and w = staleWorld and P = unixPaths and current = ?old
       and newContent = ?new]
    cur same
  have skip: "shouldUpdate unixPaths exampleGenerator ?new staleWorld = Returned False staleWorld"
    by blast
  from g1 f0 f1 n1 second cur same skip show ?thesis by blast
qed

text \<open>
  Claim C4. When none of the candidate paths exists, \<open>generate\<close> throws the error
  \<open>No env files found\<close> with the list it searched, and the world it leaves is the world
  it found: no file is written, changed or created, and nothing is logged.
\<close>

theorem generate_fails_without_source:
  assumes "\<forall>file \<in> set (envFiles g). \<not> existsSync P w file"
  shows "generate P g now w =
           Threw (Error (''No env files found. Searched: '' @ joinWith '', '' (envFiles g))) w"
proof -
  from assms have "find (existsSync P w) (envFiles g) = None"
    by (simp add: find_None_iff)
  then show ?thesis by (simp add: generate_def findEnvFile_def)
qed

theorem generate_fails_without_source_witness:
  "\<not> existsSync unixPaths exampleWorld ''/app/.env.nonexistent''
   \<and> generate unixPaths (exampleGenerator\<lparr>envFiles := [''/app/.env.nonexistent'']\<rparr>) (exampleDate 0)
        exampleWorld
      = Threw (Error ''No env files found. Searched: /app/.env.nonexistent'') exampleWorld"
  using generate_fails_without_source
    [of "exampleGenerator\<lparr>envFiles := [''/app/.env.nonexistent'']\<rparr>" unixPaths exampleWorld
        "exampleDate 0"]
  by (simp add: example_defs existsSync_def)

text \<open>
  Claim C6. When the candidates before \<open>f\<close> do not exist and \<open>f\<close> is a file, \<open>findEnvFile\<close>
  returns \<open>f\<close> and \<open>generate\<close> behaves as if \<open>f\<close> were the only candidate. After a run that
  returns, the output file is the artifact rendered from the content of \<open>f\<close>, up to the
  timestamp line when the write was skipped, and exactly when the output did not exist
  before. The second line of that artifact is \<open>// Source:\<close> with \<open>f\<close>, and its interface
  body is rendered from the entries of \<open>f\<close>.
\<close>

theorem first_existing_candidate_is_used:
  assumes "envFiles g = pre @ f # post"
    and "\<forall>p \<in> set pre. \<not> existsSync P w p"
    and "nodes w (pathResolve P f) = Some (File content)"
  shows "findEnvFile P g w = Returned f w
       \<and> generate P g now w = generate P (g\<lparr>envFiles := [f]\<rparr>) now w
       \<and> (generate P g now w = Returned () w'
            \<longrightarrow> (\<exists>current. nodes w' (pathResolve P (outputPath g)) = Some (File current)
                    \<and> stripMetadata current
                        = stripMetadata (generateDTS g (parseEnvFile content) f now)
                    \<and> (\<not> existsSync P w (outputPath g)
                         \<longrightarrow> current = generateDTS g (parseEnvFile content) f now)))
       \<and> generateDTS g (parseEnvFile content) f now =
            warningLine @ [LF] @ ''// Source: '' @ f @ [LF] @ ''// '' @ generateContent now @ [LF] @
            [LF] @ ''declare namespace NodeJS {'' @ [LF] @ ''  interface ProcessEnv {'' @ [LF] @
            generateInterfaceBody g (parseEnvFile content) @ [LF] @
            ''  }'' @ [LF] @ ''}'' @ [LF] @ [LF] @ ''export {};'' @ [LF]"
proof (intro conjI impI)
  have ex: "existsSync P w f" using assms(3) by (simp add: existsSync_def)
  with assms(1,2) show found: "findEnvFile P g w = Returned f w"
    by (simp add: findEnvFile_Returned find_first_existing)
  from ex have "findEnvFile P (g\<lparr>envFiles := [f]\<rparr>) w = Returned f w"
    by (simp add: findEnvFile_Returned)
  with found show "generate P g now w = generate P (g\<lparr>envFiles := [f]\<rparr>) now w"
    by (intro generate_same_source [symmetric]) simp_all
  show "generateDTS g (parseEnvFile content) f now =
            warningLine @ [LF] @ ''// Source: '' @ f @ [LF] @ ''// '' @ generateContent now @ [LF] @
            [LF] @ ''declare namespace NodeJS {'' @ [LF] @ ''  interface ProcessEnv {'' @ [LF] @
            generateInterfaceBody g (parseEnvFile content) @ [LF] @
            ''  }'' @ [LF] @ ''}'' @ [LF] @ [LF] @ ''export {};'' @ [LF]"
    by (simp add: generateDTS_def)
  assume r: "generate P g now w = Returned () w'"
  from generate_Returned [OF r] found assms(3)
  show "\<exists>current. nodes w' (pathResolve P (outputPath g)) = Some (File current)
                    \<and> stripMetadata current
                        = stripMetadata (generateDTS g (parseEnvFile content) f now)
                    \<and> (\<not> existsSync P w (outputPath g)
                         \<longrightarrow> current = generateDTS g (parseEnvFile content) f now)"
    by (auto simp: findEnvFile_Returned existsSync_def)
qed

theorem first_existing_candidate_is_used_witness:
  "envFiles exampleGenerator = [''/app/.env.local''] @ ''/app/.env'' # []
   \<and> \<not> existsSync unixPaths exampleWorld ''/app/.env.local''
   \<and> nodes exampleWorld (pathResolve unixPaths ''/app/.env'') = Some (File ''DB_HOST=localhost'')
   \<and> \<not> existsSync unixPaths exampleWorld (outputPath exampleGenerator)
   \<and> findEnvFile unixPaths exampleGenerator exampleWorld = Returned ''/app/.env'' exampleWorld
   \<and> (\<exists>w'. generate unixPaths exampleGenerator (exampleDate 0) exampleWorld = Returned () w'
          \<and> nodes w' ''/app/types/env.d.ts''
              = Some (File (generateDTS exampleGenerator (parseEnvFile ''DB_HOST=localhost'')
                              ''/app/.env'' (exampleDate 0))))
   \<and> generateInterfaceBody exampleGenerator (parseEnvFile ''DB_HOST=localhost'')
       = ''    DB_HOST?: string;''"
proof -
  have h1: "envFiles exampleGenerator = [''/app/.env.local''] @ ''/app/.env'' # []"
    by (simp add: example_defs)
  have h2: "\<forall>p \<in> set [''/app/.env.local'']. \<not> existsSync unixPaths exampleWorld p"
    by (simp add: example_defs existsSync_def)
  have h3: "nodes exampleWorld (pathResolve unixPaths ''/app/.env'') = Some (File ''DB_HOST=localhost'')"
    by (simp add: example_defs)
  have "\<exists>w'. generate unixPaths exampleGenerator (exampleDate 0) exampleWorld = Returned () w'"
    by (simp add: example_defs run_defs)
  then obtain w' where
    g1: "generate unixPaths exampleGenerator (exampleDate 0) exampleWorld = Returned () w'" ..
  have o: "\<not> existsSync unixPaths exampleWorld (outputPath exampleGenerator)"
    "pathResolve unixPaths (outputPath exampleGenerator) = ''/app/types/env.d.ts''"
    by (simp_all add: example_defs existsSync_def)
  have body: "generateInterfaceBody exampleGenerator (parseEnvFile ''DB_HOST=localhost'')
       = ''    DB_HOST?: string;''"
    by (simp add: example_defs generateInterfaceBody_def parseEnvFile_def parseLines_def
        parseLine_def trim_def isWhiteSpace_def startsWith_def includesChar_def indexOf_def
        slice_def Let_def)
  from first_existing_candidate_is_used [OF h1 h2 h3, of "exampleDate 0" w'] g1 o
  have "findEnvFile unixPaths exampleGenerator exampleWorld = Returned ''/app/.env'' exampleWorld"
    and "nodes w' ''/app/types/env.d.ts''
              = Some (File (generateDTS exampleGenerator (parseEnvFile ''DB_HOST=localhost'')
                              ''/app/.env'' (exampleDate 0)))"
    by auto
  with h1 h2 h3 g1 body o show ?thesis by auto
qed




section \<open>The claim about the plugin\<close>

text \<open>
  Claim C8, as the code has it. \<open>generateTypes\<close> always returns: a failure of the
  directory step or of the generator process is caught inside it and logged on the
  error stream after the prefix \<open>[EnvTypesPlugin] Failed to generate env types:\<close>. So
  the hook before a compilation always goes on to its callback, with that message
  logged when the generation failed. The catch is in \<open>generateTypes\<close> itself, and the
  hook of a watch run, which calls it too, returns after a failure in the same way.
\<close>

theorem generation_failure_is_swallowed:
  "(\<exists>w'. generateTypes P exec plugin w = Returned () w')
   \<and> (\<exists>w'. beforeCompileHook P exec plugin callback w = callback w')
   \<and> (\<exists>w'. watchRunHook P exec plugin modifiedFiles w = Returned () w')
   \<and> (pluginEnsureOutputDirectory P plugin w = Returned () w1
        \<and> exec (''node '' @ generatorScript plugin) (if silent plugin then Pipe else Inherit)
             [(''ENV_FILES'', joinWith '','' (pluginEnvFiles plugin)),
              (''OUTPUT_PATH'', pluginOutputPath plugin)] w1
           = Threw e w2
      \<longrightarrow> generateTypes P exec plugin w =
            Returned ()
              (consoleError (''[EnvTypesPlugin] Failed to generate env types: '' @ message e) w2)
          \<and> beforeCompileHook P exec plugin callback w =
            callback (consoleError (''[EnvTypesPlugin] Failed to generate env types: '' @ message e) w2)
          \<and> watchRunHook P exec plugin (Some changedFiles) w =
            (if hasEnvFileChanged plugin changedFiles
             then Returned ()
                    (consoleError (''[EnvTypesPlugin] Failed to generate env types: '' @ message e) w2)
             else Returned () w))"
proof (intro conjI impI)
  show r: "\<exists>w'. generateTypes P exec plugin w = Returned () w'"
    by (rule generateTypes_returns)
  then show "\<exists>w'. beforeCompileHook P exec plugin callback w = callback w'"
    by (auto simp: beforeCompileHook_def)
  from r show "\<exists>w'. watchRunHook P exec plugin modifiedFiles w = Returned () w'"
    by (auto simp: watchRunHook_def split: option.splits)
next
  assume a: "pluginEnsureOutputDirectory P plugin w = Returned () w1
        \<and> exec (''node '' @ generatorScript plugin) (if silent plugin then Pipe else Inherit)
             [(''ENV_FILES'', joinWith '','' (pluginEnvFiles plugin)),
              (''OUTPUT_PATH'', pluginOutputPath plugin)] w1
           = Threw e w2"
  then show g: "generateTypes P exec plugin w =
      Returned () (consoleError (''[EnvTypesPlugin] Failed to generate env types: '' @ message e) w2)"
    by (simp add: generateTypes_def)
  then show "beforeCompileHook P exec plugin callback w =
            callback (consoleError (''[EnvTypesPlugin] Failed to generate env types: '' @ message e) w2)"
    by (simp add: beforeCompileHook_def)
  from g show "watchRunHook P exec plugin (Some changedFiles) w =
            (if hasEnvFileChanged plugin changedFiles
             then Returned ()
                    (consoleError (''[EnvTypesPlugin] Failed to generate env types: '' @ message e) w2)
             else Returned () w)"
    by (simp add: watchRunHook_def)
qed

theorem generation_failure_is_swallowed_witness:
  "\<exists>w1 e w2.
      pluginEnsureOutputDirectory unixPaths examplePlugin exampleWorld = Returned () w1
    \<and> execGenerator unixPaths (exampleDate 0) (''node '' @ generatorScript examplePlugin)
         (if silent examplePlugin then Pipe else Inherit)
         [(''ENV_FILES'', joinWith '','' (pluginEnvFiles examplePlugin)),
          (''OUTPUT_PATH'', pluginOutputPath examplePlugin)] w1
        = Threw e w2
    \<and> message e = ''Command failed: node /app/dist/EnvTypesGenerator.js''
    \<and> stderr w2 = [''No env files found. Searched: .env.staging'']
    \<and> beforeCompileHook unixPaths (execGenerator unixPaths (exampleDate 0)) examplePlugin
         (\<lambda>w. Returned () (consoleLog ''compiling'' w)) exampleWorld
        = Returned ()
            (consoleLog ''compiling''
               (consoleError (''[EnvTypesPlugin] Failed to generate env types: '' @ message e) w2))"
proof -
  let ?w1 = "exampleWorld
          \<lparr>nodes := (nodes exampleWorld)(''/app/types'' \<mapsto> Directory),
           stdout := [''[EnvTypesPlugin] Created directory: /app/types'']\<rparr>"
  let ?w2 = "?w1\<lparr>stderr := [''No env files found. Searched: .env.staging'']\<rparr>"
  let ?e = "Error ''Command failed: node /app/dist/EnvTypesGenerator.js''"
  have d: "pluginEnsureOutputDirectory unixPaths examplePlugin exampleWorld = Returned () ?w1"
    by (simp add: plugin_defs run_defs)
  have x: "execGenerator unixPaths (exampleDate 0) (''node '' @ generatorScript examplePlugin)
         (if silent examplePlugin then Pipe else Inherit)
         [(''ENV_FILES'', joinWith '','' (pluginEnvFiles examplePlugin)),
          (''OUTPUT_PATH'', pluginOutputPath examplePlugin)] ?w1
        = Threw ?e ?w2"
    by (simp add: plugin_defs run_defs)
  from generation_failure_is_swallowed
    [where P = unixPaths and exec = "execGenerator unixPaths (exampleDate 0)"
       and plugin = examplePlugin and w = exampleWorld and ?w1.0 = ?w1 and ?w2.0 = ?w2 and e = ?e
       and callback = "\<lambda>w. Returned () (consoleLog ''compiling'' w)"]
    d x
  have "beforeCompileHook unixPaths (execGenerator unixPaths (exampleDate 0)) examplePlugin
         (\<lambda>w. Returned () (consoleLog ''compiling'' w)) exampleWorld
        = Returned ()
            (consoleLog ''compiling''
               (consoleError (''[EnvTypesPlugin] Failed to generate env types: '' @ message ?e) ?w2))"
    by blast
  with d x show ?thesis
    by (intro exI [of _ ?w1] exI [of _ ?e] exI [of _ ?w2]) (simp add: exampleWorld_def)
qed

text \<open>
  A watch run in which a changed file matches a candidate by its suffix while no source
  file is found: the generator process fails, the failure is logged, and the hook
  returns.
\<close>

theorem watch_run_swallows_failure_counterexample:
  "hasEnvFileChanged examplePlugin [''/app/config/.env.staging'']
   \<and> watchRunHook unixPaths (execGenerator unixPaths (exampleDate 0)) examplePlugin
        (Some [''/app/config/.env.staging'']) exampleWorld
      = Returned ()
          (exampleWorld
             \<lparr>nodes := (nodes exampleWorld)(''/app/types'' \<mapsto> Directory),
              stdout := [''[EnvTypesPlugin] Created directory: /app/types''],
              stderr :=
                [''No env files found. Searched: .env.staging'',
                 ''[EnvTypesPlugin] Failed to generate env types: Command failed: node /app/dist/EnvTypesGenerator.js'']\<rparr>)"
  by (simp add: watchRunHook_def hasEnvFileChanged_def endsWith_def generateTypes_def
      plugin_defs run_defs)

end
